theory Spec2Isabelle
  imports Complex_Main
begin

section \<open>JavaScript numbers\<close>

text \<open>
  The functions of \<^verbatim>\<open>src/js/main.js\<close> compute on JavaScript numbers. A number is
  modelled as an exact real or one of the three special values \<open>Infinity\<close>,
  \<open>-Infinity\<close> and \<open>NaN\<close>, with the arithmetic of the language on them: a division by
  zero gives an infinity or \<open>NaN\<close>, \<open>0 * Infinity\<close> is \<open>NaN\<close>, every comparison with
  \<open>NaN\<close> is false. Rounding to 64-bit precision is left out (\<open>Math.PI\<close> is \<open>pi\<close>,
  \<open>Math.cos\<close> is \<open>cos\<close>), and so is the sign of zero: every zero is \<open>+0\<close>.
  So a sum or product here is exact where the language rounds it: \<open>total + 1\<close> is
  above 1 for every positive \<open>total\<close>, also below \<open>2^-53\<close>;
  \<open>min + 1 * (max - min)\<close> is \<open>max\<close>; and \<open>cos (pi / 2)\<close> is 0 where
  \<open>Math.cos(Math.PI / 2)\<close> is about \<open>6.1e-17\<close>. The theorems below are stated
  where this makes no difference to what they say.
\<close>

datatype jsnum = Fin real | PInf | NInf | NaN

text \<open>The sign of a number that is not \<open>NaN\<close>, as a real.\<close>

fun sign_of :: "jsnum \<Rightarrow> real" where
  "sign_of (Fin a) = sgn a"
| "sign_of PInf = 1"
| "sign_of NInf = - 1"
| "sign_of NaN = 0"

definition inf_of_sign :: "real \<Rightarrow> jsnum" where
  "inf_of_sign s = (if s = 0 then NaN else if 0 < s then PInf else NInf)"

fun js_neg :: "jsnum \<Rightarrow> jsnum" where
  "js_neg (Fin a) = Fin (- a)"
| "js_neg PInf = NInf"
| "js_neg NInf = PInf"
| "js_neg NaN = NaN"

fun js_add :: "jsnum \<Rightarrow> jsnum \<Rightarrow> jsnum" where
  "js_add NaN y = NaN"
| "js_add x NaN = NaN"
| "js_add (Fin a) (Fin b) = Fin (a + b)"
| "js_add (Fin a) y = y"
| "js_add x (Fin b) = x"
| "js_add PInf PInf = PInf"
| "js_add NInf NInf = NInf"
| "js_add PInf NInf = NaN"
| "js_add NInf PInf = NaN"

definition js_sub :: "jsnum \<Rightarrow> jsnum \<Rightarrow> jsnum" where
  "js_sub x y = js_add x (js_neg y)"

fun js_mul :: "jsnum \<Rightarrow> jsnum \<Rightarrow> jsnum" where
  "js_mul NaN y = NaN"
| "js_mul x NaN = NaN"
| "js_mul (Fin a) (Fin b) = Fin (a * b)"
| "js_mul x y = inf_of_sign (sign_of x * sign_of y)"

fun js_div :: "jsnum \<Rightarrow> jsnum \<Rightarrow> jsnum" where
  "js_div NaN y = NaN"
| "js_div x NaN = NaN"
| "js_div (Fin a) (Fin b) = (if b = 0 then inf_of_sign (sgn a) else Fin (a / b))"
| "js_div (Fin a) y = Fin 0"
| "js_div x (Fin b) = inf_of_sign (sign_of x * (if b < 0 then - 1 else 1))"
| "js_div x y = NaN"

text \<open>The remainder \<open>%\<close> truncates the quotient towards zero: its sign is the dividend's.\<close>

definition trunc :: "real \<Rightarrow> int" where
  "trunc q = (if 0 \<le> q then \<lfloor>q\<rfloor> else \<lceil>q\<rceil>)"

fun js_rem :: "jsnum \<Rightarrow> jsnum \<Rightarrow> jsnum" where
  "js_rem (Fin a) (Fin b) = (if b = 0 then NaN else Fin (a - b * of_int (trunc (a / b))))"
| "js_rem (Fin a) PInf = Fin a"
| "js_rem (Fin a) NInf = Fin a"
| "js_rem x y = NaN"

fun js_lt :: "jsnum \<Rightarrow> jsnum \<Rightarrow> bool" where
  "js_lt NaN y = False"
| "js_lt x NaN = False"
| "js_lt (Fin a) (Fin b) = (a < b)"
| "js_lt x PInf = (x \<noteq> PInf)"
| "js_lt NInf y = (y \<noteq> NInf)"
| "js_lt x y = False"

definition js_gt :: "jsnum \<Rightarrow> jsnum \<Rightarrow> bool" where
  "js_gt x y = js_lt y x"

text \<open>Strict equality \<open>===\<close> of two numbers: \<open>NaN\<close> equals nothing.\<close>

definition js_eq :: "jsnum \<Rightarrow> jsnum \<Rightarrow> bool" where
  "js_eq x y = (x \<noteq> NaN \<and> x = y)"

text \<open>A number in a condition: zero and \<open>NaN\<close> count as false.\<close>

definition truthy :: "jsnum \<Rightarrow> bool" where
  "truthy x = (x \<noteq> Fin 0 \<and> x \<noteq> NaN)"

definition Math_min :: "jsnum \<Rightarrow> jsnum \<Rightarrow> jsnum" where
  "Math_min x y = (if x = NaN \<or> y = NaN then NaN else if js_lt x y then x else y)"

definition Math_max :: "jsnum \<Rightarrow> jsnum \<Rightarrow> jsnum" where
  "Math_max x y = (if x = NaN \<or> y = NaN then NaN else if js_lt x y then y else x)"

fun Math_cos :: "jsnum \<Rightarrow> jsnum" where
  "Math_cos (Fin a) = Fin (cos a)"
| "Math_cos x = NaN"

fun Math_sin :: "jsnum \<Rightarrow> jsnum" where
  "Math_sin (Fin a) = Fin (sin a)"
| "Math_sin x = NaN"

fun Math_sign :: "jsnum \<Rightarrow> jsnum" where
  "Math_sign NaN = NaN"
| "Math_sign x = Fin (sign_of x)"

fun Math_abs :: "jsnum \<Rightarrow> jsnum" where
  "Math_abs (Fin a) = Fin \<bar>a\<bar>"
| "Math_abs NaN = NaN"
| "Math_abs x = PInf"

text \<open>
  \<open>Math.pow\<close> and the operator \<open>**\<close>: anything to the power zero is 1, also \<open>NaN\<close>;
  a base of absolute value 1 to an infinite power is \<open>NaN\<close>; zero to a negative power
  is \<open>Infinity\<close>; a negative base has a power only for an integer exponent.
\<close>

definition is_integer :: "real \<Rightarrow> bool" where
  "is_integer e = (of_int \<lfloor>e\<rfloor> = e)"

definition odd_integer :: "real \<Rightarrow> bool" where
  "odd_integer e = (is_integer e \<and> odd \<lfloor>e\<rfloor>)"

fun Math_pow :: "jsnum \<Rightarrow> jsnum \<Rightarrow> jsnum" where
  "Math_pow x NaN = NaN"
| "Math_pow NaN (Fin e) = (if e = 0 then Fin 1 else NaN)"
| "Math_pow NaN y = NaN"
| "Math_pow (Fin b) (Fin e) =
     (if e = 0 then Fin 1
      else if b = 0 then (if 0 < e then Fin 0 else PInf)
      else if 0 < b then Fin (b powr e)
      else if is_integer e then Fin ((if odd \<lfloor>e\<rfloor> then - 1 else 1) * (\<bar>b\<bar> powr e))
      else NaN)"
| "Math_pow PInf (Fin e) = (if e = 0 then Fin 1 else if 0 < e then PInf else Fin 0)"
| "Math_pow NInf (Fin e) =
     (if e = 0 then Fin 1
      else if 0 < e then (if odd_integer e then NInf else PInf)
      else Fin 0)"
| "Math_pow (Fin b) PInf = (if 1 < \<bar>b\<bar> then PInf else if \<bar>b\<bar> = 1 then NaN else Fin 0)"
| "Math_pow (Fin b) NInf = (if 1 < \<bar>b\<bar> then Fin 0 else if \<bar>b\<bar> = 1 then NaN else PInf)"
| "Math_pow x PInf = PInf"
| "Math_pow x NInf = Fin 0"

text \<open>\<open>Math.round\<close> rounds to the nearest integer, a half upwards.\<close>

fun Math_round :: "jsnum \<Rightarrow> jsnum" where
  "Math_round (Fin a) = Fin (of_int \<lfloor>a + 1 / 2\<rfloor>)"
| "Math_round x = x"

definition Math_PI :: jsnum where
  "Math_PI = Fin pi"

section \<open>The colour model converter\<close>

type_synonym color = "jsnum \<times> jsnum \<times> jsnum"

text \<open>
  \<^verbatim>\<open>hsv2hsl(hue, saturation, value, lightness = ..., minLightness = ...)\<close>: the callers
  pass three arguments, so the last two parameters take their default expressions.
\<close>

definition hsv2hsl :: "jsnum \<Rightarrow> jsnum \<Rightarrow> jsnum \<Rightarrow> color" where
  "hsv2hsl hue saturation val =
     (let lightness = js_sub val (js_div (js_mul val saturation) (Fin 2));
          minLightness = Math_min lightness (js_sub (Fin 1) lightness)
      in (hue,
          if truthy minLightness then js_div (js_sub val lightness) minLightness else Fin 0,
          lightness))"

definition hsv2hsx :: "jsnum \<Rightarrow> jsnum \<Rightarrow> jsnum \<Rightarrow> string \<Rightarrow> color" where
  "hsv2hsx hue saturation val mode =
     (if mode = ''hsl'' then hsv2hsl hue saturation val else (hue, saturation, val))"

section \<open>The hex encoder\<close>

text \<open>
  \<open>Number.prototype.toString(16)\<close> on an integer: the digits of its absolute value,
  lowercase, after a minus sign when it is negative; the special values print their names.
  The only caller applies it to the result of \<open>Math.round\<close>, which is an integer or
  a special value.
\<close>

definition hex_digit :: "nat \<Rightarrow> char" where
  "hex_digit d = ''0123456789abcdef'' ! d"

fun hex_digits :: "nat \<Rightarrow> string" where
  "hex_digits n = (if n < 16 then [hex_digit n] else hex_digits (n div 16) @ [hex_digit (n mod 16)])"

declare hex_digits.simps [simp del]

fun toString16 :: "jsnum \<Rightarrow> string" where
  "toString16 (Fin a) =
     (if a < 0 then ''-'' @ hex_digits (nat (- \<lfloor>a\<rfloor>)) else hex_digits (nat \<lfloor>a\<rfloor>))"
| "toString16 PInf = ''Infinity''"
| "toString16 NInf = ''-Infinity''"
| "toString16 NaN = ''NaN''"

definition toHex :: "jsnum \<Rightarrow> string" where
  "toHex component =
     (let hex = toString16 (Math_round (js_mul component (Fin 255)))
      in if length hex = 1 then ''0'' @ hex else hex)"

definition calculateComponent :: "jsnum \<Rightarrow> jsnum \<Rightarrow> jsnum \<Rightarrow> jsnum" where
  "calculateComponent primary secondary temporary0 =
     (let temporary1 = (if js_lt temporary0 (Fin 0) then js_add temporary0 (Fin 1) else temporary0);
          temporary = (if js_gt temporary1 (Fin 1) then js_sub temporary1 (Fin 1) else temporary1)
      in if js_lt temporary (js_div (Fin 1) (Fin 6))
           then js_add primary (js_mul (js_mul (js_sub secondary primary) (Fin 6)) temporary)
         else if js_lt temporary (js_div (Fin 1) (Fin 2)) then secondary
         else if js_lt temporary (js_div (Fin 2) (Fin 3))
           then js_add primary
                  (js_mul (js_mul (js_sub secondary primary)
                                  (js_sub (js_div (Fin 2) (Fin 3)) temporary)) (Fin 6))
         else primary)"

text \<open>
  \<^verbatim>\<open>hslToHex(hue, saturation, lightness)\<close>, in two parts: the channels \<open>red\<close>,
  \<open>green\<close> and \<open>blue\<close> that the function computes, and the string it builds from them.
\<close>

definition hslToHex_channels :: "jsnum \<Rightarrow> jsnum \<Rightarrow> jsnum \<Rightarrow> jsnum \<times> jsnum \<times> jsnum" where
  "hslToHex_channels hue0 saturation0 lightness0 =
     (let hue = js_div hue0 (Fin 360);
          saturation = js_div saturation0 (Fin 100);
          lightness = js_div lightness0 (Fin 100)
      in if js_eq saturation (Fin 0) then (lightness, lightness, lightness)
         else
           let secondaryComponent =
                 (if js_lt lightness (Fin 0.5)
                  then js_mul lightness (js_add (Fin 1) saturation)
                  else js_sub (js_add lightness saturation) (js_mul lightness saturation));
               primaryComponent = js_sub (js_mul (Fin 2) lightness) secondaryComponent
           in (calculateComponent primaryComponent secondaryComponent
                 (js_add hue (js_div (Fin 1) (Fin 3))),
               calculateComponent primaryComponent secondaryComponent hue,
               calculateComponent primaryComponent secondaryComponent
                 (js_sub hue (js_div (Fin 1) (Fin 3)))))"

definition hslToHex :: "jsnum \<Rightarrow> jsnum \<Rightarrow> jsnum \<Rightarrow> string" where
  "hslToHex hue saturation lightness =
     (case hslToHex_channels hue saturation lightness of
        (red, green, blue) \<Rightarrow> ''#'' @ toHex red @ toHex green @ toHex blue)"

section \<open>The curve sampler\<close>

text \<open>A parameter with a default: the default replaces a missing argument.\<close>

definition or_default :: "'a option \<Rightarrow> 'a \<Rightarrow> 'a" where
  "or_default v d = (case v of None \<Rightarrow> d | Some x \<Rightarrow> x)"

text \<open>
  The value passed as \<open>curveMethod\<close>: a string; a function of one number that returns
  a pair; another value that converts to a string (a number, a boolean, \<open>null\<close>, a
  plain object); or a value whose conversion to a string throws a \<open>TypeError\<close> (a
  \<open>Symbol\<close>, an object without \<open>toString\<close> and \<open>valueOf\<close>).
\<close>

datatype js_value =
  Str string | Callable "jsnum \<Rightarrow> jsnum \<times> jsnum" | Other | Unprintable

text \<open>
  The curve sampler throws an \<open>Error\<close> in the default branch of its \<open>switch\<close>
  (the spec's \<open>InvalidCurveMethod\<close>); calling a value that is no function throws a
  \<open>TypeError\<close>.
\<close>

datatype error = InvalidCurveMethod | TypeError

definition call_value :: "js_value \<Rightarrow> jsnum \<Rightarrow> error + (jsnum \<times> jsnum)" where
  "call_value f p = (case f of Callable g \<Rightarrow> Inr (g p) | _ \<Rightarrow> Inl TypeError)"

text \<open>
  The default branch builds its message with the template literal
  \<^verbatim>\<open>`... ${curveMethod} ...`\<close> before it constructs the \<open>Error\<close>: the conversion of
  \<open>curveMethod\<close> to a string comes first, and what it throws leaves the function.
\<close>

definition template_literal :: "js_value \<Rightarrow> error option" where
  "template_literal v = (case v of Unprintable \<Rightarrow> Some TypeError | _ \<Rightarrow> None)"

text \<open>
  \<^verbatim>\<open>pointOnCurve(curveMethod, i, total, curveAccent, min = [0, 0], max = [1, 1])\<close>, in
  two parts: the \<open>switch\<close> statement, which computes the raw \<open>x\<close> and \<open>y\<close> or
  throws, and the function around it, which clamps and remaps them. The \<open>switch\<close>
  compares \<open>curveMethod\<close> itself with each case label by \<open>===\<close>, so the branch of the
  label \<open>"function"\<close> is taken when \<open>curveMethod\<close> is that string.
\<close>

definition pointOnCurve_switch ::
  "js_value \<Rightarrow> jsnum \<Rightarrow> jsnum \<Rightarrow> jsnum \<Rightarrow> error + (jsnum \<times> jsnum)" where
  "pointOnCurve_switch curveMethod i total' curveAccent =
     (let limit = js_div Math_PI (Fin 2);
          slice = js_div limit total';
          percentile = js_div i total'
      in if curveMethod = Str ''lame'' then
           let t = js_mul percentile limit;
               exp = js_div (Fin 2) (js_add (Fin 2) (js_mul (Fin 20) curveAccent));
               cosT = Math_cos t;
               sinT = Math_sin t
           in Inr (js_mul (Math_sign cosT) (Math_pow (Math_abs cosT) exp),
                   js_mul (Math_sign sinT) (Math_pow (Math_abs sinT) exp))
         else if curveMethod = Str ''arc'' then
           Inr (Math_sin (js_sub (js_add (js_div Math_PI (Fin 2)) (js_mul i slice)) curveAccent),
                Math_cos (js_add (js_add (js_div (js_neg Math_PI) (Fin 2)) (js_mul i slice))
                            curveAccent))
         else if curveMethod = Str ''pow'' then
           Inr (Math_pow (js_sub (Fin 1) percentile) (js_sub (Fin 1) curveAccent),
                Math_pow percentile (js_sub (Fin 1) curveAccent))
         else if curveMethod = Str ''powY'' then
           Inr (Math_pow (js_sub (Fin 1) percentile) curveAccent,
                Math_pow percentile (js_sub (Fin 1) curveAccent))
         else if curveMethod = Str ''powX'' then
           Inr (Math_pow percentile curveAccent,
                Math_pow percentile (js_sub (Fin 1) curveAccent))
         else if curveMethod = Str ''function'' then
           (case call_value curveMethod percentile of
              Inl e \<Rightarrow> Inl e
            | Inr r0 \<Rightarrow>
                (case call_value curveMethod percentile of
                   Inl e \<Rightarrow> Inl e
                 | Inr r1 \<Rightarrow> Inr (fst r0, snd r1)))
         else (case template_literal curveMethod of
                 Some e \<Rightarrow> Inl e
               | None \<Rightarrow> Inl InvalidCurveMethod))"

definition pointOnCurve ::
  "js_value \<Rightarrow> jsnum \<Rightarrow> jsnum \<Rightarrow> jsnum \<Rightarrow> (jsnum \<times> jsnum) option \<Rightarrow> (jsnum \<times> jsnum) option
     \<Rightarrow> error + (jsnum \<times> jsnum)" where
  "pointOnCurve curveMethod i total' curveAccent min_arg max_arg =
     (let min = or_default min_arg (Fin 0, Fin 0);
          max = or_default max_arg (Fin 1, Fin 1)
      in case pointOnCurve_switch curveMethod i total' curveAccent of
           Inl e \<Rightarrow> Inl e
         | Inr (x, y) \<Rightarrow>
             Inr (js_add (fst min)
                    (js_mul (Math_min (Math_max x (Fin 0)) (Fin 1)) (js_sub (fst max) (fst min))),
                  js_add (snd min)
                    (js_mul (Math_min (Math_max y (Fin 0)) (Fin 1)) (js_sub (snd max) (snd min)))))"

section \<open>The ramp generator\<close>

text \<open>
  The argument of \<^verbatim>\<open>generateRandomColorRamp\<close> is an object in which every property
  may be missing; the destructuring pattern gives each missing property its default.
\<close>

record ramp_options =
  opt_total :: "jsnum option"
  opt_centerHue :: "jsnum option"
  opt_hueCycle :: "jsnum option"
  opt_offsetTint :: "jsnum option"
  opt_offsetShade :: "jsnum option"
  opt_curveAccent :: "jsnum option"
  opt_tintShadeHueShift :: "jsnum option"
  opt_curveMethod :: "js_value option"
  opt_offsetCurveModTint :: "jsnum option"
  opt_offsetCurveModShade :: "jsnum option"
  opt_minSaturationLight :: "(jsnum \<times> jsnum) option"
  opt_maxSaturationLight :: "(jsnum \<times> jsnum) option"
  opt_colorModel :: "string option"

definition no_options :: ramp_options where
  "no_options =
     \<lparr>opt_total = None, opt_centerHue = None, opt_hueCycle = None, opt_offsetTint = None,
      opt_offsetShade = None, opt_curveAccent = None, opt_tintShadeHueShift = None,
      opt_curveMethod = None, opt_offsetCurveModTint = None, opt_offsetCurveModShade = None,
      opt_minSaturationLight = None, opt_maxSaturationLight = None, opt_colorModel = None\<rparr>"

record ramp_config =
  total :: jsnum
  centerHue :: jsnum
  hueCycle :: jsnum
  offsetTint :: jsnum
  offsetShade :: jsnum
  curveAccent :: jsnum
  tintShadeHueShift :: jsnum
  curveMethod :: js_value
  offsetCurveModTint :: jsnum
  offsetCurveModShade :: jsnum
  minSaturationLight :: "jsnum \<times> jsnum"
  maxSaturationLight :: "jsnum \<times> jsnum"
  colorModel :: string

text \<open>
  The destructuring defaults. The two copies of the generator in the repository differ
  in one of them, the default of \<open>total\<close>, which is a parameter here.
\<close>

definition destructure :: "jsnum \<Rightarrow> ramp_options \<Rightarrow> ramp_config" where
  "destructure default_total opts =
     \<lparr>total = or_default (opt_total opts) default_total,
      centerHue = or_default (opt_centerHue opts) (Fin 0),
      hueCycle = or_default (opt_hueCycle opts) (Fin 0.3),
      offsetTint = or_default (opt_offsetTint opts) (Fin 0.1),
      offsetShade = or_default (opt_offsetShade opts) (Fin 0.1),
      curveAccent = or_default (opt_curveAccent opts) (Fin 0),
      tintShadeHueShift = or_default (opt_tintShadeHueShift opts) (Fin 0.1),
      curveMethod = or_default (opt_curveMethod opts) (Str ''arc''),
      offsetCurveModTint = or_default (opt_offsetCurveModTint opts) (Fin 0.03),
      offsetCurveModShade = or_default (opt_offsetCurveModShade opts) (Fin 0.03),
      minSaturationLight = or_default (opt_minSaturationLight opts) (Fin 0, Fin 0),
      maxSaturationLight = or_default (opt_maxSaturationLight opts) (Fin 1, Fin 1),
      colorModel = or_default (opt_colorModel opts) ''hsl''\<rparr>"

record ramp =
  light :: "color list"
  dark :: "color list"
  base :: "color list"
  all :: "color list"

text \<open>The hue \<open>h\<close> of the loop body at index \<open>i\<close>.\<close>

definition ramp_h :: "ramp_config \<Rightarrow> jsnum \<Rightarrow> jsnum" where
  "ramp_h c i =
     js_rem
       (js_add (Fin 360)
          (js_add (js_mul (Fin (- 180)) (hueCycle c))
             (js_add (centerHue c)
                (js_mul (js_mul i (js_div (Fin 360) (js_add (total c) (Fin 1)))) (hueCycle c)))))
       (Fin 360)"

text \<open>
  One pass of the loop body on the three arrays \<open>baseColors\<close>, \<open>lightColors\<close> and
  \<open>darkColors\<close>; an exception of the curve sampler leaves the function at once.
\<close>

type_synonym ramp_state = "color list \<times> color list \<times> color list"

definition ramp_body :: "ramp_config \<Rightarrow> jsnum \<Rightarrow> ramp_state \<Rightarrow> error + ramp_state" where
  "ramp_body c i st =
     (case st of (baseColors, lightColors, darkColors) \<Rightarrow>
       (case pointOnCurve (curveMethod c) i (js_add (total c) (Fin 1)) (curveAccent c)
               (Some (minSaturationLight c)) (Some (maxSaturationLight c)) of
          Inl e \<Rightarrow> Inl e
        | Inr (x, y) \<Rightarrow>
           (let h = ramp_h c i;
                hsl = hsv2hsx h x y (colorModel c);
                baseColors = baseColors @ [hsl]
            in (case pointOnCurve (curveMethod c) i (js_add (total c) (Fin 1))
                       (js_add (curveAccent c) (offsetCurveModTint c))
                       (Some (minSaturationLight c)) (Some (maxSaturationLight c)) of
                  Inl e \<Rightarrow> Inl e
                | Inr (xl, yl) \<Rightarrow>
                   (let hslLight = hsv2hsx h xl yl (colorModel c);
                        lightColors = lightColors @
                          [(js_rem (js_add h (js_mul (Fin 360) (tintShadeHueShift c))) (Fin 360),
                            js_sub (fst (snd hslLight)) (offsetTint c),
                            js_add (snd (snd hslLight)) (offsetTint c))]
                    in (case pointOnCurve (curveMethod c) i (js_add (total c) (Fin 1))
                               (js_sub (curveAccent c) (offsetCurveModShade c))
                               (Some (minSaturationLight c)) (Some (maxSaturationLight c)) of
                          Inl e \<Rightarrow> Inl e
                        | Inr (xd, yd) \<Rightarrow>
                           (let hslDark = hsv2hsx h xd yd (colorModel c);
                                darkColors = darkColors @
                                  [(js_rem (js_add (Fin 360)
                                              (js_sub h (js_mul (Fin 360) (tintShadeHueShift c))))
                                           (Fin 360),
                                    js_sub (fst (snd hslDark)) (offsetShade c),
                                    js_sub (snd (snd hslDark)) (offsetShade c))]
                            in Inr (baseColors, lightColors, darkColors))))))))"

text \<open>
  The loop \<^verbatim>\<open>for (let i = 1; i < total + 1; i++)\<close>. With \<open>total\<close> infinite it never
  ends, so the loop is a partial function: \<open>None\<close> is the run that does not return.
\<close>

partial_function (option) ramp_loop ::
  "ramp_config \<Rightarrow> jsnum \<Rightarrow> ramp_state \<Rightarrow> (error + ramp_state) option" where
  "ramp_loop c i st =
     (if js_lt i (js_add (total c) (Fin 1))
      then (case ramp_body c i st of
              Inl e \<Rightarrow> Some (Inl e)
            | Inr st' \<Rightarrow> ramp_loop c (js_add i (Fin 1)) st')
      else Some (Inr st))"

definition generate :: "ramp_config \<Rightarrow> (error + ramp) option" where
  "generate c =
     (case ramp_loop c (Fin 1) ([], [], []) of
        None \<Rightarrow> None
      | Some (Inl e) \<Rightarrow> Some (Inl e)
      | Some (Inr (baseColors, lightColors, darkColors)) \<Rightarrow>
          Some (Inr \<lparr>light = lightColors, dark = darkColors, base = baseColors,
                     all = lightColors @ baseColors @ darkColors\<rparr>))"

text \<open>\<^verbatim>\<open>generateRandomColorRamp\<close> of \<^verbatim>\<open>src/js/main.js\<close>: \<open>total = 198\<close>.\<close>

definition generateRandomColorRamp :: "ramp_options \<Rightarrow> (error + ramp) option" where
  "generateRandomColorRamp opts = generate (destructure (Fin 198) opts)"

text \<open>
  \<^verbatim>\<open>generateRandomColorRamp\<close> of \<^verbatim>\<open>src/unnamed/part_000\<close>, the same function with
  \<open>total = 3\<close>.
\<close>

definition generateRandomColorRamp_part_000 :: "ramp_options \<Rightarrow> (error + ramp) option" where
  "generateRandomColorRamp_part_000 opts = generate (destructure (Fin 3) opts)"

section \<open>The specification's description of the ramp\<close>

text \<open>The five names that select a built-in curve.\<close>

definition named_curve :: "js_value \<Rightarrow> bool" where
  "named_curve m = (m \<in> {Str ''lame'', Str ''arc'', Str ''pow'', Str ''powY'', Str ''powX''})"

definition is_callable :: "js_value \<Rightarrow> bool" where
  "is_callable m = (case m of Callable f \<Rightarrow> True | _ \<Rightarrow> False)"

text \<open>
  The curve sampler as the generator calls it: \<open>total + 1\<close> divisions and the rectangle
  of the configuration.
\<close>

definition sample :: "ramp_config \<Rightarrow> jsnum \<Rightarrow> jsnum \<Rightarrow> error + (jsnum \<times> jsnum)" where
  "sample c i accent =
     pointOnCurve (curveMethod c) i (js_add (total c) (Fin 1)) accent
       (Some (minSaturationLight c)) (Some (maxSaturationLight c))"

text \<open>
  The entries of the three sequences at index \<open>i\<close> in the words of the specification
  (steps 3 to 5 of its algorithm), \<open>h\<close> being the base hue of that index: the base
  colour is the converted sample; the tint re-samples the curve at
  \<open>curveAccent + offsetCurveModTint\<close>, converts, and is
  \<open>((h + 360 * tintShadeHueShift) mod 360, s_l - offsetTint, l_l + offsetTint)\<close>; the shade
  re-samples at \<open>curveAccent - offsetCurveModShade\<close> and is
  \<open>((360 + (h - 360 * tintShadeHueShift)) mod 360, s_d - offsetShade, l_d - offsetShade)\<close>.
  The specification's \<open>mod\<close> is the remainder \<open>%\<close> of the source.
\<close>

definition spec_base :: "ramp_config \<Rightarrow> jsnum \<Rightarrow> error + color" where
  "spec_base c i =
     (case sample c i (curveAccent c) of
        Inl e \<Rightarrow> Inl e
      | Inr (x, y) \<Rightarrow> Inr (hsv2hsx (ramp_h c i) x y (colorModel c)))"

definition spec_tint :: "ramp_config \<Rightarrow> jsnum \<Rightarrow> jsnum \<Rightarrow> error + color" where
  "spec_tint c i h =
     (case sample c i (js_add (curveAccent c) (offsetCurveModTint c)) of
        Inl e \<Rightarrow> Inl e
      | Inr (xl, yl) \<Rightarrow>
          (case hsv2hsx h xl yl (colorModel c) of
             (h_l, s_l, l_l) \<Rightarrow>
               Inr (js_rem (js_add h (js_mul (Fin 360) (tintShadeHueShift c))) (Fin 360),
                    js_sub s_l (offsetTint c),
                    js_add l_l (offsetTint c))))"

definition spec_shade :: "ramp_config \<Rightarrow> jsnum \<Rightarrow> jsnum \<Rightarrow> error + color" where
  "spec_shade c i h =
     (case sample c i (js_sub (curveAccent c) (offsetCurveModShade c)) of
        Inl e \<Rightarrow> Inl e
      | Inr (xd, yd) \<Rightarrow>
          (case hsv2hsx h xd yd (colorModel c) of
             (h_d, s_d, l_d) \<Rightarrow>
               Inr (js_rem (js_add (Fin 360) (js_sub h (js_mul (Fin 360) (tintShadeHueShift c))))
                      (Fin 360),
                    js_sub s_d (offsetShade c),
                    js_sub l_d (offsetShade c))))"

definition base_of :: "ramp_config \<Rightarrow> jsnum \<Rightarrow> color" where
  "base_of c i = projr (spec_base c i)"

definition tint_of :: "ramp_config \<Rightarrow> jsnum \<Rightarrow> color" where
  "tint_of c i = projr (spec_tint c i (ramp_h c i))"

definition shade_of :: "ramp_config \<Rightarrow> jsnum \<Rightarrow> color" where
  "shade_of c i = projr (spec_shade c i (ramp_h c i))"

text \<open>
  The \<open>i\<close>-th entries of a ramp (counted from 1) are those the specification
  describes: the hue of the \<open>i\<close>-th base colour is the hue computed for index \<open>i\<close>,
  and the \<open>i\<close>-th tint and shade are the specification's, with that hue for \<open>h\<close>.
\<close>

definition entries_as_specified :: "ramp_config \<Rightarrow> ramp \<Rightarrow> nat \<Rightarrow> bool" where
  "entries_as_specified c r i =
     (fst (base r ! (i - 1)) = ramp_h c (Fin (real i)) \<and>
      Inr (light r ! (i - 1)) = spec_tint c (Fin (real i)) (fst (base r ! (i - 1))) \<and>
      Inr (dark r ! (i - 1)) = spec_shade c (Fin (real i)) (fst (base r ! (i - 1))))"

text \<open>The values of the loop variable in \<open>n\<close> passes that start at \<open>j\<close>.\<close>

definition indices :: "real \<Rightarrow> nat \<Rightarrow> jsnum list" where
  "indices j n = map (\<lambda>k. Fin (j + real k)) [0..<n]"

text \<open>
  What a run of the loop that returns has done to the three arrays: it has appended the
  entries of some number of consecutive indices, each of which passed the loop test.
\<close>

definition loop_extends :: "ramp_config \<Rightarrow> jsnum \<Rightarrow> ramp_state \<Rightarrow> error + ramp_state \<Rightarrow> bool" where
  "loop_extends c i st y =
     (\<forall>j b l d b' l' d'. i = Fin j \<and> st = (b, l, d) \<and> y = Inr (b', l', d') \<longrightarrow>
        (\<exists>n. (n = 0 \<or> named_curve (curveMethod c)) \<and>
             (\<forall>i' \<in> set (indices j n). js_lt i' (js_add (total c) (Fin 1))) \<and>
             b' = b @ map (base_of c) (indices j n) \<and>
             l' = l @ map (tint_of c) (indices j n) \<and>
             d' = d @ map (shade_of c) (indices j n)))"

text \<open>
  A number within a closed interval, by the comparisons of the language: \<open>NaN\<close> is in
  no interval.
\<close>

definition js_le :: "jsnum \<Rightarrow> jsnum \<Rightarrow> bool" where
  "js_le x y = (js_lt x y \<or> js_eq x y)"

definition in_interval :: "jsnum \<Rightarrow> jsnum \<Rightarrow> jsnum \<Rightarrow> bool" where
  "in_interval lo hi x = (js_le lo x \<and> js_le x hi)"

text \<open>
  A channel value in \<open>[0, 1]\<close> as a byte: 255 times the value, rounded to the nearest
  integer; and a byte as two lowercase hexadecimal digits, the first one a zero below 16.
\<close>

definition nearest_byte :: "real \<Rightarrow> nat" where
  "nearest_byte c = nat \<lfloor>c * 255 + 1 / 2\<rfloor>"

definition hex2 :: "nat \<Rightarrow> string" where
  "hex2 n = [hex_digit (n div 16), hex_digit (n mod 16)]"

definition empty_ramp :: ramp where
  "empty_ramp = \<lparr>light = [], dark = [], base = [], all = []\<rparr>"

section \<open>The curve sampler's errors\<close>

lemma pointOnCurve_named: "named_curve m \<Longrightarrow> \<exists>p. pointOnCurve m i n a mn mx = Inr p"
  unfolding named_curve_def pointOnCurve_def pointOnCurve_switch_def Let_def
  by (auto split: prod.splits)

lemma pointOnCurve_function: "pointOnCurve (Str ''function'') i n a mn mx = Inl TypeError"
  unfolding pointOnCurve_def pointOnCurve_switch_def Let_def call_value_def
  by simp

lemma pointOnCurve_default:
  "\<not> named_curve m \<Longrightarrow> m \<noteq> Str ''function'' \<Longrightarrow> m \<noteq> Unprintable \<Longrightarrow>
   pointOnCurve m i n a mn mx = Inl InvalidCurveMethod"
  unfolding named_curve_def pointOnCurve_def pointOnCurve_switch_def Let_def template_literal_def
  by (cases m) simp_all

lemma pointOnCurve_unprintable: "pointOnCurve Unprintable i n a mn mx = Inl TypeError"
  unfolding pointOnCurve_def pointOnCurve_switch_def Let_def template_literal_def
  by simp

lemma sample_named: "named_curve (curveMethod c) \<Longrightarrow> \<exists>p. sample c i a = Inr p"
  unfolding sample_def by (rule pointOnCurve_named)

lemma sample_unnamed: "\<not> named_curve (curveMethod c) \<Longrightarrow> \<exists>e. sample c i a = Inl e"
  unfolding sample_def
  by (cases "curveMethod c = Str ''function''"; cases "curveMethod c = Unprintable")
     (simp_all add: pointOnCurve_function pointOnCurve_default pointOnCurve_unprintable)

lemma spec_base_named: "named_curve (curveMethod c) \<Longrightarrow> \<exists>col. spec_base c i = Inr col"
proof -
  assume "named_curve (curveMethod c)"
  then obtain x y where "sample c i (curveAccent c) = Inr (x, y)"
    using sample_named [of c i "curveAccent c"] by fastforce
  then have "spec_base c i = Inr (hsv2hsx (ramp_h c i) x y (colorModel c))"
    by (simp add: spec_base_def)
  then show ?thesis by (rule exI)
qed

lemma spec_tint_named: "named_curve (curveMethod c) \<Longrightarrow> \<exists>col. spec_tint c i h = Inr col"
proof -
  assume "named_curve (curveMethod c)"
  then obtain x y where "sample c i (js_add (curveAccent c) (offsetCurveModTint c)) = Inr (x, y)"
    using sample_named [of c i "js_add (curveAccent c) (offsetCurveModTint c)"] by fastforce
  then show ?thesis
    by (simp add: spec_tint_def split: prod.splits)
qed

lemma spec_shade_named: "named_curve (curveMethod c) \<Longrightarrow> \<exists>col. spec_shade c i h = Inr col"
proof -
  assume "named_curve (curveMethod c)"
  then obtain x y where "sample c i (js_sub (curveAccent c) (offsetCurveModShade c)) = Inr (x, y)"
    using sample_named [of c i "js_sub (curveAccent c) (offsetCurveModShade c)"] by fastforce
  then show ?thesis
    by (simp add: spec_shade_def split: prod.splits)
qed

section \<open>The loop\<close>

lemma ramp_body_spec:
  "ramp_body c i (b, l, d) =
     (case spec_base c i of
        Inl e \<Rightarrow> Inl e
      | Inr cb \<Rightarrow>
          (case spec_tint c i (ramp_h c i) of
             Inl e \<Rightarrow> Inl e
           | Inr cl \<Rightarrow>
               (case spec_shade c i (ramp_h c i) of
                  Inl e \<Rightarrow> Inl e
                | Inr cd \<Rightarrow> Inr (b @ [cb], l @ [cl], d @ [cd]))))"
  unfolding ramp_body_def spec_base_def spec_tint_def spec_shade_def sample_def Let_def
  by (simp split: sum.splits prod.splits)

lemma ramp_body_named:
  "named_curve (curveMethod c) \<Longrightarrow>
   ramp_body c i (b, l, d) = Inr (b @ [base_of c i], l @ [tint_of c i], d @ [shade_of c i])"
  using spec_base_named [of c i] spec_tint_named [of c i "ramp_h c i"]
        spec_shade_named [of c i "ramp_h c i"]
  by (auto simp: ramp_body_spec base_of_def tint_of_def shade_of_def)

lemma ramp_body_unnamed:
  "\<not> named_curve (curveMethod c) \<Longrightarrow> \<exists>e. ramp_body c i st = Inl e"
  using sample_unnamed [of c i "curveAccent c"]
  by (cases st) (auto simp: ramp_body_spec spec_base_def)

lemma ramp_body_invalid:
  "\<not> named_curve (curveMethod c) \<Longrightarrow> curveMethod c \<noteq> Str ''function'' \<Longrightarrow>
   curveMethod c \<noteq> Unprintable \<Longrightarrow> ramp_body c i st = Inl InvalidCurveMethod"
  by (cases st) (simp add: ramp_body_def pointOnCurve_default)

lemma indices_0 [simp]: "indices j 0 = []"
  by (simp add: indices_def)

lemma indices_Suc: "indices j (Suc n) = Fin j # indices (j + 1) n"
proof -
  have "[0..<Suc n] = 0 # map Suc [0..<n]"
    by (simp add: upt_conv_Cons map_Suc_upt del: upt_Suc)
  then show ?thesis
    by (simp add: indices_def comp_def add.assoc add.commute del: upt_Suc)
qed

lemma length_indices [simp]: "length (indices j n) = n"
  by (simp add: indices_def)

lemma nth_indices: "k < n \<Longrightarrow> indices j n ! k = Fin (j + real k)"
  by (simp add: indices_def)

text \<open>With a finite \<open>total\<close> and a built-in curve the loop returns, after
  \<open>\<lceil>total + 1 - i\<rceil>\<close> passes.\<close>

lemma ramp_loop_named:
  assumes m: "named_curve (curveMethod c)" and t: "total c = Fin t"
  shows "nat \<lceil>t + 1 - j\<rceil> = n \<Longrightarrow>
         ramp_loop c (Fin j) (b, l, d) =
           Some (Inr (b @ map (base_of c) (indices j n), l @ map (tint_of c) (indices j n),
                      d @ map (shade_of c) (indices j n)))"
proof (induction n arbitrary: j b l d)
  case 0
  then have "\<not> j < t + 1" by linarith
  then show ?case
    by (subst ramp_loop.simps) (simp add: t)
next
  case (Suc n)
  then have lt: "j < t + 1" by linarith
  have "nat \<lceil>t + 1 - (j + 1)\<rceil> = n" using Suc.prems by linarith
  note ih = Suc.IH [OF this]
  show ?case
    by (subst ramp_loop.simps) (simp add: t lt ramp_body_named [OF m] ih indices_Suc)
qed

text \<open>Whatever \<open>total\<close> is, a run of the loop that returns has appended the entries the
  specification describes.\<close>

lemma ramp_loop_result:
  assumes "ramp_loop c i st = Some y"
  shows "loop_extends c i st y"
proof (rule ramp_loop.raw_induct [where P = loop_extends, OF _ assms])
  fix f c i st y
  assume ih: "\<And>c i st y. f c i st = Some y \<Longrightarrow> loop_extends c i st y"
    and body: "(if js_lt i (js_add (total c) (Fin 1))
                then case ramp_body c i st of Inl e \<Rightarrow> Some (Inl e)
                     | Inr st' \<Rightarrow> f c (js_add i (Fin 1)) st'
                else Some (Inr st)) = Some y"
  show "loop_extends c i st y"
    unfolding loop_extends_def
  proof (intro allI impI, elim conjE)
    fix j b l d b' l' d'
    assume i: "i = Fin j" and st: "st = (b, l, d)" and y: "y = Inr (b', l', d')"
    show "\<exists>n. (n = 0 \<or> named_curve (curveMethod c)) \<and>
                (\<forall>i' \<in> set (indices j n). js_lt i' (js_add (total c) (Fin 1))) \<and>
                b' = b @ map (base_of c) (indices j n) \<and>
                l' = l @ map (tint_of c) (indices j n) \<and>
                d' = d @ map (shade_of c) (indices j n)"
    proof (cases "js_lt i (js_add (total c) (Fin 1))")
      case False
      with body have "y = Inr st" by simp
      with st y have "b' = b \<and> l' = l \<and> d' = d" by simp
      then show ?thesis by (intro exI [of _ 0]) simp
    next
      case True
      show ?thesis
      proof (cases "named_curve (curveMethod c)")
        case False
        then obtain e where "ramp_body c i st = Inl e"
          using ramp_body_unnamed by blast
        with True body y show ?thesis by simp
      next
        case named: True
        let ?st = "(b @ [base_of c i], l @ [tint_of c i], d @ [shade_of c i])"
        have "ramp_body c i st = Inr ?st"
          by (simp add: st ramp_body_named [OF named])
        with True body have "f c (js_add i (Fin 1)) ?st = Some y" by simp
        from ih [OF this] i y obtain n where
          n: "\<forall>i' \<in> set (indices (j + 1) n). js_lt i' (js_add (total c) (Fin 1))"
             "b' = (b @ [base_of c i]) @ map (base_of c) (indices (j + 1) n)"
             "l' = (l @ [tint_of c i]) @ map (tint_of c) (indices (j + 1) n)"
             "d' = (d @ [shade_of c i]) @ map (shade_of c) (indices (j + 1) n)"
          unfolding loop_extends_def by auto
        show ?thesis
          using True n(1)
          by (intro exI [of _ "Suc n"]) (simp add: n(2-) named indices_Suc i)
      qed
    qed
  qed
qed

section \<open>The generator's result\<close>

lemma generate_named:
  assumes "named_curve (curveMethod c)" and "total c = Fin t"
  shows "generate c =
           Some (Inr \<lparr>light = map (tint_of c) (indices 1 (nat \<lceil>t\<rceil>)),
                      dark = map (shade_of c) (indices 1 (nat \<lceil>t\<rceil>)),
                      base = map (base_of c) (indices 1 (nat \<lceil>t\<rceil>)),
                      all = map (tint_of c) (indices 1 (nat \<lceil>t\<rceil>)) @
                            map (base_of c) (indices 1 (nat \<lceil>t\<rceil>)) @
                            map (shade_of c) (indices 1 (nat \<lceil>t\<rceil>))\<rparr>)"
proof -
  have "nat \<lceil>t + 1 - 1\<rceil> = nat \<lceil>t\<rceil>" by simp
  from ramp_loop_named [OF assms this, of "[]" "[]" "[]"] show ?thesis
    by (simp add: generate_def)
qed

lemma generate_no_pass:
  "\<not> js_lt (Fin 1) (js_add (total c) (Fin 1)) \<Longrightarrow> generate c = Some (Inr empty_ramp)"
  by (simp add: generate_def empty_ramp_def ramp_loop.simps [of c "Fin 1"])

lemma generate_invalid:
  assumes "js_lt (Fin 1) (js_add (total c) (Fin 1))"
    and "\<not> named_curve (curveMethod c)" and "curveMethod c \<noteq> Str ''function''"
    and "curveMethod c \<noteq> Unprintable"
  shows "generate c = Some (Inl InvalidCurveMethod)"
  using assms
  by (simp add: generate_def ramp_loop.simps [of c "Fin 1"] ramp_body_invalid)

lemma generate_result:
  assumes "generate c = Some (Inr r)"
  shows "\<exists>n. (n = 0 \<or> named_curve (curveMethod c)) \<and>
             (\<forall>i \<in> set (indices 1 n). js_lt i (js_add (total c) (Fin 1))) \<and>
             base r = map (base_of c) (indices 1 n) \<and>
             light r = map (tint_of c) (indices 1 n) \<and>
             dark r = map (shade_of c) (indices 1 n) \<and>
             all r = light r @ base r @ dark r"
proof -
  from assms obtain b l d where
    loop: "ramp_loop c (Fin 1) ([], [], []) = Some (Inr (b, l, d))"
    and r: "r = \<lparr>light = l, dark = d, base = b, all = l @ b @ d\<rparr>"
    by (auto simp: generate_def split: option.splits sum.splits)
  from ramp_loop_result [OF loop] show ?thesis
    unfolding loop_extends_def by (simp add: r)
qed

lemma total_destructure: "total (destructure d opts) = or_default (opt_total opts) d"
  by (simp add: destructure_def)

lemma curveMethod_destructure:
  "curveMethod (destructure d opts) = or_default (opt_curveMethod opts) (Str ''arc'')"
  by (simp add: destructure_def)

lemma js_lt_loop_test: "js_lt (Fin 1) (js_add n (Fin 1)) = js_lt (Fin 0) n"
  by (cases n) simp_all

lemma fst_hsv2hsx [simp]: "fst (hsv2hsx h x y m) = h"
  by (simp add: hsv2hsx_def hsv2hsl_def Let_def)

lemma fst_base_of: "named_curve (curveMethod c) \<Longrightarrow> fst (base_of c i) = ramp_h c i"
proof -
  assume "named_curve (curveMethod c)"
  then obtain x y where "sample c i (curveAccent c) = Inr (x, y)"
    using sample_named [of c i "curveAccent c"] by fastforce
  then show ?thesis
    by (simp add: base_of_def spec_base_def)
qed

lemma tint_of_spec:
  "named_curve (curveMethod c) \<Longrightarrow> Inr (tint_of c i) = spec_tint c i (ramp_h c i)"
  using spec_tint_named [of c i "ramp_h c i"] by (auto simp: tint_of_def)

lemma shade_of_spec:
  "named_curve (curveMethod c) \<Longrightarrow> Inr (shade_of c i) = spec_shade c i (ramp_h c i)"
  using spec_shade_named [of c i "ramp_h c i"] by (auto simp: shade_of_def)

text \<open>
  A ramp of one step on the curve \<open>pow\<close>, computed from the definitions: the sample is
  \<open>(1/2, 1/2)\<close>, the hue 0, the base colour \<open>(0, 1/3, 3/8)\<close>.
\<close>

lemma generateRandomColorRamp_example:
  "generateRandomColorRamp
     (no_options\<lparr>opt_total := Some (Fin 1), opt_curveMethod := Some (Str ''pow''),
                 opt_offsetCurveModTint := Some (Fin 0),
                 opt_offsetCurveModShade := Some (Fin 0)\<rparr>) =
   Some (Inr \<lparr>light = [(Fin 36, Fin (7 / 30), Fin (19 / 40))],
              dark = [(Fin 324, Fin (7 / 30), Fin (11 / 40))],
              base = [(Fin 0, Fin (1 / 3), Fin (3 / 8))],
              all = [(Fin 36, Fin (7 / 30), Fin (19 / 40)), (Fin 0, Fin (1 / 3), Fin (3 / 8)),
                     (Fin 324, Fin (7 / 30), Fin (11 / 40))]\<rparr>)"
  by (simp add: generateRandomColorRamp_def generate_def destructure_def no_options_def
        or_default_def ramp_loop.simps [of _ "Fin 1"] ramp_loop.simps [of _ "Fin 2"]
        ramp_body_def ramp_h_def pointOnCurve_def pointOnCurve_switch_def hsv2hsx_def
        hsv2hsl_def Let_def js_sub_def Math_min_def Math_max_def truthy_def trunc_def)

text \<open>
  Claim C1, as amended. The claim reads: for every configuration the generator returns a
  record whose \<open>base\<close>, \<open>light\<close> and \<open>dark\<close> sequences have length \<open>total\<close> and whose
  \<open>all\<close> is \<open>light @ base @ dark\<close>, of length \<open>3 * total\<close>. It holds when
  \<open>curveMethod\<close> is one of the five curve names and \<open>total\<close> is a natural number \<open>n\<close>:
  then the call returns a record, the three sequences have length \<open>n\<close>, and \<open>all\<close> is
  the concatenation light, base, dark, of length \<open>3 * n\<close>.
\<close>

theorem generateRandomColorRamp_lengths:
  assumes "named_curve (or_default (opt_curveMethod opts) (Str ''arc''))"
    and "or_default (opt_total opts) (Fin 198) = Fin (real n)"
  shows "\<exists>r. generateRandomColorRamp opts = Some (Inr r) \<and>
             length (base r) = n \<and> length (light r) = n \<and> length (dark r) = n \<and>
             all r = light r @ base r @ dark r \<and> length (all r) = 3 * n"
proof -
  let ?c = "destructure (Fin 198) opts"
  have "named_curve (curveMethod ?c)" and "total ?c = Fin (real n)"
    using assms by (simp_all add: curveMethod_destructure total_destructure)
  from generate_named [OF this] show ?thesis
    by (simp add: generateRandomColorRamp_def)
qed

text \<open>
  The instance of the claim: with \<open>{total: 3}\<close> and the defaults, \<open>base\<close>, \<open>light\<close> and
  \<open>dark\<close> have length 3 and \<open>all\<close> has length 9, in the order light, base, dark.
\<close>

theorem generateRandomColorRamp_lengths_witness:
  "named_curve (or_default (opt_curveMethod (no_options\<lparr>opt_total := Some (Fin 3)\<rparr>))
                  (Str ''arc'')) \<and>
   or_default (opt_total (no_options\<lparr>opt_total := Some (Fin 3)\<rparr>)) (Fin 198) = Fin (real 3) \<and>
   (\<exists>r. generateRandomColorRamp (no_options\<lparr>opt_total := Some (Fin 3)\<rparr>) = Some (Inr r) \<and>
        length (base r) = 3 \<and> length (light r) = 3 \<and> length (dark r) = 3 \<and>
        all r = light r @ base r @ dark r \<and> length (all r) = 9)"
  using generateRandomColorRamp_lengths [of "no_options\<lparr>opt_total := Some (Fin 3)\<rparr>" 3]
  by (simp add: no_options_def or_default_def named_curve_def)

text \<open>
  Claim C1 as stated fails: the configuration \<open>{total: 3, curveMethod: "bogus"}\<close> makes
  the generator throw, so no record is returned.
\<close>

theorem generateRandomColorRamp_bogus_no_record:
  "generateRandomColorRamp
     (no_options\<lparr>opt_total := Some (Fin 3), opt_curveMethod := Some (Str ''bogus'')\<rparr>) =
     Some (Inl InvalidCurveMethod)"
  unfolding generateRandomColorRamp_def
  by (rule generate_invalid)
     (simp_all add: total_destructure curveMethod_destructure or_default_def no_options_def
        named_curve_def)

text \<open>
  Claim C2: a callable \<open>curveMethod\<close>, such as \<open>p => [p, 1 - p]\<close>, is invoked and its
  pair clamped and remapped; it does not fail with \<open>InvalidCurveMethod\<close>. The code does
  not do this. The \<open>switch\<close> compares the function itself with the string
  \<open>"function"\<close>, which is never equal, so the default branch throws; the branch written
  for callables is reached only by the string \<open>"function"\<close>, where the call throws a
  \<open>TypeError\<close>.
\<close>

theorem pointOnCurve_callable_throws:
  "pointOnCurve (Callable (\<lambda>p. (p, js_sub (Fin 1) p))) (Fin 1) (Fin 4) (Fin 0) None None =
     Inl InvalidCurveMethod \<and>
   pointOnCurve (Callable f) i n a mn mx = Inl InvalidCurveMethod \<and>
   pointOnCurve (Str ''function'') i n a mn mx = Inl TypeError \<and>
   generateRandomColorRamp
     (no_options\<lparr>opt_total := Some (Fin 3),
                 opt_curveMethod := Some (Callable (\<lambda>p. (p, js_sub (Fin 1) p)))\<rparr>) =
     Some (Inl InvalidCurveMethod)"
proof -
  let ?o = "no_options\<lparr>opt_total := Some (Fin 3),
                       opt_curveMethod := Some (Callable (\<lambda>p. (p, js_sub (Fin 1) p)))\<rparr>"
  have "\<not> named_curve (Callable g)" for g
    by (simp add: named_curve_def)
  then have point: "pointOnCurve (Callable g) i' n' a' mn' mx' = Inl InvalidCurveMethod"
    for g i' n' a' mn' mx'
    by (simp add: pointOnCurve_default)
  have "generate (destructure (Fin 198) ?o) = Some (Inl InvalidCurveMethod)"
    by (rule generate_invalid)
       (simp_all add: total_destructure curveMethod_destructure or_default_def no_options_def
          named_curve_def)
  then show ?thesis
    by (simp add: point pointOnCurve_function generateRandomColorRamp_def)
qed

lemma js_le_loop_test: "js_le (Fin 1) n \<Longrightarrow> js_lt (Fin 1) (js_add n (Fin 1))"
  by (cases n) (auto simp: js_le_def js_eq_def)

text \<open>
  Claim C4, as amended. The claim reads: when \<open>curveMethod\<close> is neither one of the five
  names nor a callable, the generator raises \<open>InvalidCurveMethod\<close> and returns no record.
  It holds when \<open>total\<close> is at least 1, so that the loop body runs, and \<open>curveMethod\<close>
  is a string other than \<open>"function"\<close>, or another value that is no function and
  converts to a string: then the call throws \<open>InvalidCurveMethod\<close> in its first pass
  and no record is returned.
\<close>

theorem invalid_curveMethod_raises:
  assumes "opt_curveMethod opts = Some m"
    and "\<not> named_curve m" and "\<not> is_callable m" and "m \<noteq> Str ''function''"
    and "m \<noteq> Unprintable"
    and "js_le (Fin 1) (or_default (opt_total opts) (Fin 198))"
  shows "generateRandomColorRamp opts = Some (Inl InvalidCurveMethod)"
proof -
  let ?c = "destructure (Fin 198) opts"
  have "js_lt (Fin 1) (js_add (total ?c) (Fin 1))"
    using assms(6) by (simp add: total_destructure js_le_loop_test)
  moreover have "curveMethod ?c = m"
    using assms(1) by (simp add: curveMethod_destructure or_default_def)
  ultimately have "generate ?c = Some (Inl InvalidCurveMethod)"
    using assms(2,4,5) by (intro generate_invalid) simp_all
  then show ?thesis
    by (simp add: generateRandomColorRamp_def)
qed

theorem invalid_curveMethod_raises_witness:
  "opt_curveMethod (no_options\<lparr>opt_curveMethod := Some (Str ''bogus'')\<rparr>) = Some (Str ''bogus'') \<and>
   \<not> named_curve (Str ''bogus'') \<and> \<not> is_callable (Str ''bogus'') \<and>
   Str ''bogus'' \<noteq> Str ''function'' \<and> Str ''bogus'' \<noteq> Unprintable \<and>
   js_le (Fin 1)
     (or_default (opt_total (no_options\<lparr>opt_curveMethod := Some (Str ''bogus'')\<rparr>)) (Fin 198)) \<and>
   generateRandomColorRamp (no_options\<lparr>opt_curveMethod := Some (Str ''bogus'')\<rparr>) =
     Some (Inl InvalidCurveMethod)"
  using invalid_curveMethod_raises
    [of "no_options\<lparr>opt_curveMethod := Some (Str ''bogus'')\<rparr>" "Str ''bogus''"]
  by (simp add: no_options_def or_default_def named_curve_def is_callable_def js_le_def)

text \<open>
  Claim C4 as stated fails: with \<open>{total: 0, curveMethod: "bogus"}\<close> the loop body never
  runs, nothing is thrown, and the generator returns the record of four empty sequences.
\<close>

theorem invalid_curveMethod_total_zero:
  "generateRandomColorRamp
     (no_options\<lparr>opt_total := Some (Fin 0), opt_curveMethod := Some (Str ''bogus'')\<rparr>) =
     Some (Inr \<lparr>light = [], dark = [], base = [], all = []\<rparr>)"
  using generate_no_pass
    [of "destructure (Fin 198)
           (no_options\<lparr>opt_total := Some (Fin 0), opt_curveMethod := Some (Str ''bogus'')\<rparr>)"]
  by (simp add: generateRandomColorRamp_def empty_ramp_def total_destructure or_default_def
        no_options_def)

lemma generate_entries:
  assumes "generate c = Some (Inr r)" and "1 \<le> i" and "i \<le> length (light r)"
  shows "i \<le> length (base r) \<and> i \<le> length (dark r) \<and> entries_as_specified c r i"
proof -
  from generate_result [OF assms(1)] obtain n where
    n: "n = 0 \<or> named_curve (curveMethod c)"
    and b: "base r = map (base_of c) (indices 1 n)"
    and l: "light r = map (tint_of c) (indices 1 n)"
    and d: "dark r = map (shade_of c) (indices 1 n)"
    by blast
  from assms(2) obtain k where i: "i = Suc k"
    by (cases i) simp_all
  from assms(3) l have k: "k < n" by (simp add: i)
  with n have named: "named_curve (curveMethod c)" by auto
  have idx: "indices 1 n ! k = Fin (1 + real k)"
    using k by (simp add: nth_indices)
  show ?thesis
    using k
    by (simp add: entries_as_specified_def i b l d idx fst_base_of [OF named]
          tint_of_spec [OF named] shade_of_spec [OF named])
qed

text \<open>
  Claim C5: for every \<open>i\<close> from 1 to \<open>total\<close> the \<open>i\<close>-th tint is
  \<open>((h + 360 * tintShadeHueShift) mod 360, s_l - offsetTint, l_l + offsetTint)\<close> with
  \<open>(s_l, l_l)\<close> from the curve re-sampled at \<open>curveAccent + offsetCurveModTint\<close>, and
  the \<open>i\<close>-th shade is
  \<open>((360 + (h - 360 * tintShadeHueShift)) mod 360, s_d - offsetShade, l_d - offsetShade)\<close>
  with \<open>(s_d, l_d)\<close> from the curve re-sampled at \<open>curveAccent - offsetCurveModShade\<close>,
  where \<open>h\<close> is the hue of the \<open>i\<close>-th base colour, the hue computed for index \<open>i\<close>.
  With one of the five curve names and a natural number \<open>n\<close> for \<open>total\<close> the
  generator returns a ramp of \<open>n\<close> tints and \<open>n\<close> shades, and every one of them, from
  1 to \<open>n\<close>, is as the claim says; and whatever the configuration, every entry of a
  ramp that the generator returns is as the claim says.
\<close>

theorem tint_shade_entries:
  "(named_curve (or_default (opt_curveMethod opts) (Str ''arc'')) \<and>
    or_default (opt_total opts) (Fin 198) = Fin (real n) \<longrightarrow>
      (\<exists>r. generateRandomColorRamp opts = Some (Inr r) \<and>
           length (base r) = n \<and> length (light r) = n \<and> length (dark r) = n \<and>
           (\<forall>i. 1 \<le> i \<and> i \<le> n \<longrightarrow>
                entries_as_specified (destructure (Fin 198) opts) r i))) \<and>
   (generateRandomColorRamp opts = Some (Inr r') \<and> 1 \<le> i' \<and> i' \<le> length (light r') \<longrightarrow>
      i' \<le> length (base r') \<and> i' \<le> length (dark r') \<and>
      entries_as_specified (destructure (Fin 198) opts) r' i')"
proof (intro conjI impI)
  let ?c = "destructure (Fin 198) opts"
  assume "named_curve (or_default (opt_curveMethod opts) (Str ''arc'')) \<and>
          or_default (opt_total opts) (Fin 198) = Fin (real n)"
  then have "named_curve (curveMethod ?c)" and "total ?c = Fin (real n)"
    by (simp_all add: curveMethod_destructure total_destructure)
  from generate_named [OF this] obtain r where
    r: "generate ?c = Some (Inr r)"
    and len: "length (base r) = n" "length (light r) = n" "length (dark r) = n"
    by simp
  have "entries_as_specified ?c r i" if "1 \<le> i \<and> i \<le> n" for i
    using generate_entries [OF r, of i] that len by simp
  with r len show "\<exists>r. generateRandomColorRamp opts = Some (Inr r) \<and>
           length (base r) = n \<and> length (light r) = n \<and> length (dark r) = n \<and>
           (\<forall>i. 1 \<le> i \<and> i \<le> n \<longrightarrow> entries_as_specified ?c r i)"
    by (auto simp: generateRandomColorRamp_def)
next
  assume a: "generateRandomColorRamp opts = Some (Inr r') \<and> 1 \<le> i' \<and> i' \<le> length (light r')"
  then have "generate (destructure (Fin 198) opts) = Some (Inr r')"
    by (simp add: generateRandomColorRamp_def)
  from generate_entries [OF this, of i'] a
  show "i' \<le> length (base r')" and "i' \<le> length (dark r')"
    and "entries_as_specified (destructure (Fin 198) opts) r' i'"
    by simp_all
qed

theorem tint_shade_entries_witness:
  "named_curve (or_default (opt_curveMethod (no_options\<lparr>opt_total := Some (Fin 2)\<rparr>))
                  (Str ''arc'')) \<and>
   or_default (opt_total (no_options\<lparr>opt_total := Some (Fin 2)\<rparr>)) (Fin 198) = Fin (real 2) \<and>
   (\<exists>r. generateRandomColorRamp (no_options\<lparr>opt_total := Some (Fin 2)\<rparr>) = Some (Inr r) \<and>
        length (light r) = 2 \<and> length (dark r) = 2 \<and> (1::nat) \<le> 2 \<and> 2 \<le> length (light r) \<and>
        entries_as_specified (destructure (Fin 198) (no_options\<lparr>opt_total := Some (Fin 2)\<rparr>)) r 1 \<and>
        entries_as_specified (destructure (Fin 198) (no_options\<lparr>opt_total := Some (Fin 2)\<rparr>)) r 2)"
proof -
  let ?o = "no_options\<lparr>opt_total := Some (Fin 2)\<rparr>"
  have h: "named_curve (or_default (opt_curveMethod ?o) (Str ''arc''))"
    "or_default (opt_total ?o) (Fin 198) = Fin (real 2)"
    by (simp_all add: no_options_def or_default_def named_curve_def)
  from tint_shade_entries [of ?o 2] h obtain r where
    r: "generateRandomColorRamp ?o = Some (Inr r)"
    and len: "length (light r) = 2" "length (dark r) = 2"
    and all: "\<forall>i. 1 \<le> i \<and> i \<le> 2 \<longrightarrow> entries_as_specified (destructure (Fin 198) ?o) r i"
    by blast
  from all have "entries_as_specified (destructure (Fin 198) ?o) r 1" by simp
  moreover from tint_shade_entries [of ?o 2 r 2] r len
  have "entries_as_specified (destructure (Fin 198) ?o) r 2" by simp
  ultimately show ?thesis
    using h r len by auto
qed

text \<open>
  Claim C10: with \<open>total\<close> zero or negative the generator returns the record of four
  empty sequences and raises nothing, whatever \<open>curveMethod\<close> is: the loop body, where
  alone \<open>curveMethod\<close> is examined, does not run.
\<close>

theorem no_pass_no_validation:
  assumes "opt_total opts = Some (Fin t)" and "t \<le> 0"
  shows "generateRandomColorRamp opts =
           Some (Inr \<lparr>light = [], dark = [], base = [], all = []\<rparr>)"
proof -
  have "\<not> js_lt (Fin 1) (js_add (total (destructure (Fin 198) opts)) (Fin 1))"
    using assms by (simp add: total_destructure or_default_def)
  from generate_no_pass [OF this] show ?thesis
    by (simp add: generateRandomColorRamp_def empty_ramp_def)
qed

theorem no_pass_no_validation_witness:
  "opt_total (no_options\<lparr>opt_total := Some (Fin (- 2)), opt_curveMethod := Some Other\<rparr>) =
     Some (Fin (- 2)) \<and> (- 2 :: real) \<le> 0 \<and>
   generateRandomColorRamp
     (no_options\<lparr>opt_total := Some (Fin (- 2)), opt_curveMethod := Some Other\<rparr>) =
     Some (Inr \<lparr>light = [], dark = [], base = [], all = []\<rparr>)"
  using no_pass_no_validation
    [of "no_options\<lparr>opt_total := Some (Fin (- 2)), opt_curveMethod := Some Other\<rparr>" "- 2"]
  by (simp add: no_options_def)

section \<open>Hue, lightness and the defaults\<close>

lemma js_rem_nonneg:
  assumes "0 \<le> a" and "0 < b"
  shows "\<exists>r. js_rem (Fin a) (Fin b) = Fin r \<and> 0 \<le> r \<and> r < b"
proof -
  let ?q = "a / b"
  have q: "0 \<le> ?q" using assms by simp
  have lo: "of_int \<lfloor>?q\<rfloor> \<le> ?q" and hi: "?q < of_int \<lfloor>?q\<rfloor> + 1" by linarith+
  from lo have "of_int \<lfloor>?q\<rfloor> * b \<le> a"
    using pos_le_divide_eq [OF assms(2)] by blast
  moreover from hi have "a < (of_int \<lfloor>?q\<rfloor> + 1) * b"
    using pos_divide_less_eq [OF assms(2)] by blast
  ultimately have "0 \<le> a - b * of_int \<lfloor>?q\<rfloor>" and "a - b * of_int \<lfloor>?q\<rfloor> < b"
    by (simp_all add: algebra_simps)
  then show ?thesis
    using assms(2) q by (simp add: trunc_def)
qed

text \<open>
  On a dividend that is not negative the remainder \<open>%\<close> is the mathematical \<open>mod\<close>;
  on a negative one it keeps the dividend's sign.
\<close>

lemma js_rem_floor:
  "0 \<le> a \<Longrightarrow> 0 < b \<Longrightarrow> js_rem (Fin a) (Fin b) = Fin (a - b * of_int \<lfloor>a / b\<rfloor>)"
  by (simp add: trunc_def)

lemma js_rem_negative_example: "js_rem (Fin (- 180)) (Fin 360) = Fin (- 180)"
  by (simp add: trunc_def ceiling_def)

lemma ramp_h_range:
  assumes "centerHue c = Fin ch" "0 \<le> ch" "ch < 360"
    and "hueCycle c = Fin hc" "0 \<le> hc" "hc \<le> 1"
    and "total c = Fin t" "1 \<le> j" "j < t + 1"
  shows "\<exists>h. ramp_h c (Fin j) = Fin h \<and> 0 \<le> h \<and> h < 360"
proof -
  have t: "0 < t + 1" using assms by linarith
  define step where "step = j * (360 / (t + 1)) * hc"
  have "0 \<le> j * (360 / (t + 1))" using assms t by simp
  then have s0: "0 \<le> step" using assms(5) unfolding step_def by (rule mult_nonneg_nonneg)
  define D where "D = 360 + (- 180 * hc + (ch + step))"
  have D: "0 \<le> D" using s0 assms(2,5,6) by (simp add: D_def)
  have "ramp_h c (Fin j) = js_rem (Fin D) (Fin 360)"
    using t by (simp add: ramp_h_def assms D_def step_def)
  with js_rem_nonneg [OF D, of 360] show ?thesis by simp
qed

text \<open>
  Claim C6: for every \<open>i\<close> from 1 to \<open>total\<close> the base hue
  \<open>(360 + (-180 * hueCycle + (centerHue + i * (360 / (total + 1)) * hueCycle))) mod 360\<close>
  lies in \<open>[0, 360)\<close> when \<open>centerHue\<close> is in \<open>[0, 360)\<close> and \<open>hueCycle\<close> in
  \<open>[0, 1]\<close>; so does the hue of every base colour of a returned ramp.
\<close>

theorem base_hue_in_range:
  assumes "c = destructure (Fin 198) opts"
    and "centerHue c = Fin ch" and "0 \<le> ch" and "ch < 360"
    and "hueCycle c = Fin hc" and "0 \<le> hc" and "hc \<le> 1"
    and "total c = Fin t"
  shows "(\<forall>i. 1 \<le> i \<and> i \<le> t \<longrightarrow> (\<exists>h. ramp_h c (Fin i) = Fin h \<and> 0 \<le> h \<and> h < 360)) \<and>
         (\<forall>r. generateRandomColorRamp opts = Some (Inr r) \<longrightarrow>
              (\<forall>col \<in> set (base r). \<exists>h. fst col = Fin h \<and> 0 \<le> h \<and> h < 360))"
proof (intro conjI allI impI ballI)
  fix i :: real
  assume "1 \<le> i \<and> i \<le> t"
  then have "1 \<le> i" and "i < t + 1" by simp_all
  then show "\<exists>h. ramp_h c (Fin i) = Fin h \<and> 0 \<le> h \<and> h < 360"
    by (rule ramp_h_range [OF assms(2-8)])
next
  fix r col
  assume "generateRandomColorRamp opts = Some (Inr r)" and col: "col \<in> set (base r)"
  then have "generate c = Some (Inr r)"
    by (simp add: generateRandomColorRamp_def assms(1))
  from generate_result [OF this] obtain n where
    n: "n = 0 \<or> named_curve (curveMethod c)"
    and test: "\<forall>i \<in> set (indices 1 n). js_lt i (js_add (total c) (Fin 1))"
    and b: "base r = map (base_of c) (indices 1 n)"
    by blast
  from col b obtain k where k: "k < n" and "col = base_of c (indices 1 n ! k)"
    by (auto simp: in_set_conv_nth)
  then have c1: "col = base_of c (Fin (1 + real k))"
    by (simp add: nth_indices)
  from k n have named: "named_curve (curveMethod c)" by auto
  have "Fin (1 + real k) \<in> set (indices 1 n)"
    using k nth_indices [OF k, of 1] by (metis length_indices nth_mem)
  with test have "1 + real k < t + 1"
    by (auto simp: assms(8))
  moreover have "1 \<le> 1 + real k" by simp
  ultimately have "\<exists>h. ramp_h c (Fin (1 + real k)) = Fin h \<and> 0 \<le> h \<and> h < 360"
    by (intro ramp_h_range [OF assms(2-8)])
  then show "\<exists>h. fst col = Fin h \<and> 0 \<le> h \<and> h < 360"
    by (simp add: c1 fst_base_of [OF named])
qed

text \<open>
  The instance of the claim: for \<open>centerHue = 350\<close>, \<open>hueCycle = 1\<close> and
  \<open>total = 1\<close> the hue of index 1 is \<open>710 mod 360 = 350\<close>.
\<close>

theorem base_hue_in_range_witness:
  "centerHue (destructure (Fin 198)
      (no_options\<lparr>opt_total := Some (Fin 1), opt_centerHue := Some (Fin 350),
                  opt_hueCycle := Some (Fin 1)\<rparr>)) = Fin 350 \<and>
   (0::real) \<le> 350 \<and> (350::real) < 360 \<and> (1::real) \<le> 1 \<and>
   ramp_h (destructure (Fin 198)
      (no_options\<lparr>opt_total := Some (Fin 1), opt_centerHue := Some (Fin 350),
                  opt_hueCycle := Some (Fin 1)\<rparr>)) (Fin 1) = Fin 350 \<and>
   (\<exists>h. ramp_h (destructure (Fin 198)
      (no_options\<lparr>opt_total := Some (Fin 1), opt_centerHue := Some (Fin 350),
                  opt_hueCycle := Some (Fin 1)\<rparr>)) (Fin 1) = Fin h \<and> 0 \<le> h \<and> h < 360) \<and>
   (\<exists>r. generateRandomColorRamp
          (no_options\<lparr>opt_total := Some (Fin 1), opt_centerHue := Some (Fin 350),
                      opt_hueCycle := Some (Fin 1)\<rparr>) = Some (Inr r) \<and>
        length (base r) = 1 \<and>
        (\<forall>col \<in> set (base r). \<exists>h. fst col = Fin h \<and> 0 \<le> h \<and> h < 360))"
proof -
  let ?o = "no_options\<lparr>opt_total := Some (Fin 1), opt_centerHue := Some (Fin 350),
                       opt_hueCycle := Some (Fin 1)\<rparr>"
  let ?c = "destructure (Fin 198) ?o"
  have ch: "centerHue ?c = Fin 350" and hc: "hueCycle ?c = Fin 1" and t: "total ?c = Fin 1"
    and m: "named_curve (curveMethod ?c)"
    by (simp_all add: destructure_def no_options_def or_default_def named_curve_def)
  have h: "ramp_h ?c (Fin 1) = Fin 350"
    by (simp add: ramp_h_def ch hc t trunc_def)
  from generate_named [OF m t] obtain r where
    r: "generateRandomColorRamp ?o = Some (Inr r)" and len: "length (base r) = 1"
    by (simp add: generateRandomColorRamp_def)
  from base_hue_in_range [OF refl ch _ _ hc _ _ t] r len ch h show ?thesis
    by simp
qed

text \<open>
  Claim C7: the lightness that \<open>hsv2hsl(h, s, v)\<close> returns is \<open>v - v * s / 2\<close>, in
  \<open>[0, 1]\<close> whenever \<open>s\<close> and \<open>v\<close> are; for \<open>s = 0\<close> the returned saturation is 0;
  and when the lightness is 0 or 1, where the saturation's divisor is zero, the returned
  saturation is 0.
\<close>

theorem hsv2hsl_lightness_saturation:
  "snd (snd (hsv2hsl h s v)) = js_sub v (js_div (js_mul v s) (Fin 2)) \<and>
   (0 \<le> s' \<and> s' \<le> 1 \<and> 0 \<le> v' \<and> v' \<le> 1 \<longrightarrow>
      (\<exists>l. snd (snd (hsv2hsl h (Fin s') (Fin v'))) = Fin l \<and> l = v' - v' * s' / 2 \<and> 0 \<le> l \<and> l \<le> 1)) \<and>
   fst (snd (hsv2hsl h (Fin 0) v)) = Fin 0 \<and>
   (snd (snd (hsv2hsl h s v)) = Fin 0 \<or> snd (snd (hsv2hsl h s v)) = Fin 1 \<longrightarrow>
      fst (snd (hsv2hsl h s v)) = Fin 0)"
proof (intro conjI impI)
  show "snd (snd (hsv2hsl h s v)) = js_sub v (js_div (js_mul v s) (Fin 2))"
    by (simp add: hsv2hsl_def Let_def)
next
  assume a: "0 \<le> s' \<and> s' \<le> 1 \<and> 0 \<le> v' \<and> v' \<le> 1"
  define p where "p = v' * s'"
  have "p \<le> v' * 1" unfolding p_def using a by (intro mult_left_mono) simp_all
  moreover have "0 \<le> p" unfolding p_def using a by simp
  ultimately have "0 \<le> v' - p / 2" and "v' - p / 2 \<le> 1"
    using a by linarith+
  then have "0 \<le> v' - v' * s' / 2" and "v' - v' * s' / 2 \<le> 1"
    by (simp_all add: p_def)
  then show "\<exists>l. snd (snd (hsv2hsl h (Fin s') (Fin v'))) = Fin l \<and> l = v' - v' * s' / 2 \<and> 0 \<le> l \<and> l \<le> 1"
    by (simp add: hsv2hsl_def Let_def js_sub_def)
next
  show "fst (snd (hsv2hsl h (Fin 0) v)) = Fin 0"
    by (cases v) (auto simp: hsv2hsl_def Let_def js_sub_def Math_min_def truthy_def inf_of_sign_def)
next
  assume "snd (snd (hsv2hsl h s v)) = Fin 0 \<or> snd (snd (hsv2hsl h s v)) = Fin 1"
  then show "fst (snd (hsv2hsl h s v)) = Fin 0"
    by (auto simp: hsv2hsl_def Let_def js_sub_def Math_min_def truthy_def)
qed

theorem hsv2hsl_lightness_saturation_witness:
  "(0::real) \<le> 1 / 2 \<and> (1 / 2 :: real) \<le> 1 \<and>
   (\<exists>l. snd (snd (hsv2hsl (Fin 0) (Fin (1 / 2)) (Fin (1 / 2)))) = Fin l \<and> l = 3 / 8 \<and>
        0 \<le> l \<and> l \<le> 1) \<and>
   snd (snd (hsv2hsl (Fin 0) (Fin 0) (Fin 1))) = Fin 1 \<and>
   fst (snd (hsv2hsl (Fin 0) (Fin 0) (Fin 1))) = Fin 0"
proof -
  have "snd (snd (hsv2hsl (Fin 0) (Fin 0) (Fin 1))) = Fin 1"
    by (simp add: hsv2hsl_def Let_def js_sub_def)
  with hsv2hsl_lightness_saturation [of "Fin 0" "Fin 0" "Fin 1" "1 / 2" "1 / 2"]
  show ?thesis by simp
qed

text \<open>
  Claim C9: called with an empty configuration, the generator uses the defaults of the
  specification's table, among them \<open>total = 3\<close>, so that the default ramp has three
  base colours. The copy of the generator in \<^verbatim>\<open>src/unnamed/part_000\<close> does; the one in
  \<^verbatim>\<open>src/js/main.js\<close> has the default \<open>total = 198\<close> and returns 198 base colours.
\<close>

theorem default_total_main_js:
  "total (destructure (Fin 198) no_options) = Fin 198 \<and>
   (\<exists>r. generateRandomColorRamp no_options = Some (Inr r) \<and>
        length (base r) = 198 \<and> length (light r) = 198 \<and> length (dark r) = 198 \<and>
        length (all r) = 594) \<and>
   (\<exists>r. generateRandomColorRamp_part_000 no_options = Some (Inr r) \<and>
        length (base r) = 3 \<and> length (light r) = 3 \<and> length (dark r) = 3 \<and>
        length (all r) = 9)"
proof -
  have m: "named_curve (curveMethod (destructure d no_options))" for d
    by (simp add: curveMethod_destructure no_options_def or_default_def named_curve_def)
  have t: "total (destructure (Fin d) no_options) = Fin d" for d
    by (simp add: total_destructure no_options_def or_default_def)
  show ?thesis
    using generate_named [OF m t, of 198] generate_named [OF m t, of 3]
    by (simp add: generateRandomColorRamp_def generateRandomColorRamp_part_000_def t)
qed

section \<open>The hex encoder's output\<close>

lemma hex_digits_byte: "n < 256 \<Longrightarrow> hex_digits n = (if n < 16 then [hex_digit n] else hex2 n)"
proof -
  assume "n < 256"
  then have "n div 16 < 16" by simp
  then show ?thesis
    by (subst hex_digits.simps) (simp add: hex2_def hex_digits.simps [of "n div 16"])
qed

lemma nearest_byte_le: "0 \<le> c \<Longrightarrow> c \<le> 1 \<Longrightarrow> nearest_byte c \<le> 255"
proof -
  assume "0 \<le> c" "c \<le> 1"
  then have "c * 255 + 1 / 2 < of_int 255 + 1" by simp
  then have "\<lfloor>c * 255 + 1 / 2\<rfloor> \<le> 255" by (simp only: floor_le_iff)
  then show ?thesis unfolding nearest_byte_def by linarith
qed

lemma nearest_byte_nearest:
  "0 \<le> c \<Longrightarrow> \<bar>real (nearest_byte c) - c * 255\<bar> \<le> 1 / 2"
proof -
  assume c: "0 \<le> c"
  then have "0 \<le> \<lfloor>c * 255 + 1 / 2\<rfloor>" by simp
  then have "real (nearest_byte c) = of_int \<lfloor>c * 255 + 1 / 2\<rfloor>"
    by (simp add: nearest_byte_def)
  then show ?thesis by linarith
qed

lemma toHex_unit:
  assumes "0 \<le> c" and "c \<le> 1"
  shows "toHex (Fin c) = hex2 (nearest_byte c)"
proof -
  have nn: "0 \<le> \<lfloor>c * 255 + 1 / 2\<rfloor>" using assms by simp
  have lt: "nearest_byte c < 256" using nearest_byte_le [OF assms] by simp
  have "toString16 (Math_round (js_mul (Fin c) (Fin 255))) = hex_digits (nearest_byte c)"
    using nn by (simp add: nearest_byte_def)
  then show ?thesis
    using lt by (simp add: toHex_def hex_digits_byte hex2_def hex_digit_def)
qed


lemma scaled_between:
  fixes p q k :: real
  assumes "p \<le> q" and "0 \<le> k" and "k \<le> 1"
  shows "p \<le> p + (q - p) * k \<and> p + (q - p) * k \<le> q"
proof -
  have "0 \<le> (q - p) * k" using assms by simp
  moreover have "(q - p) * k \<le> (q - p) * 1"
    using assms by (intro mult_left_mono) simp_all
  ultimately show ?thesis by simp
qed

lemma calculateComponent_Fin:
  "calculateComponent (Fin p) (Fin q) (Fin t) =
     (let t1 = (if t < 0 then t + 1 else t);
          t2 = (if 1 < t1 then t1 - 1 else t1)
      in if t2 < 1 / 6 then Fin (p + (q - p) * 6 * t2)
         else if t2 < 1 / 2 then Fin q
         else if t2 < 2 / 3 then Fin (p + (q - p) * (2 / 3 - t2) * 6)
         else Fin p)"
  by (simp add: calculateComponent_def Let_def js_gt_def js_sub_def)

lemma calculateComponent_between:
  assumes pq: "p \<le> q" and t: "- 1 \<le> t" "t \<le> 2"
  shows "\<exists>r. calculateComponent (Fin p) (Fin q) (Fin t) = Fin r \<and> p \<le> r \<and> r \<le> q"
proof -
  define t1 where "t1 = (if t < 0 then t + 1 else t)"
  define t2 where "t2 = (if 1 < t1 then t1 - 1 else t1)"
  have t2: "0 \<le> t2" "t2 \<le> 1" using t by (auto simp: t1_def t2_def)
  have eq: "calculateComponent (Fin p) (Fin q) (Fin t) =
     (if t2 < 1 / 6 then Fin (p + (q - p) * 6 * t2)
      else if t2 < 1 / 2 then Fin q
      else if t2 < 2 / 3 then Fin (p + (q - p) * (2 / 3 - t2) * 6)
      else Fin p)"
    unfolding calculateComponent_Fin Let_def t1_def t2_def by (rule refl)
  consider "t2 < 1 / 6" | "1 / 6 \<le> t2" "t2 < 1 / 2" | "1 / 2 \<le> t2" "t2 < 2 / 3" | "2 / 3 \<le> t2"
    by linarith
  then show ?thesis
  proof cases
    case 1
    then have "0 \<le> 6 * t2" "6 * t2 \<le> 1" using t2 by simp_all
    from scaled_between [OF pq this]
    have "p \<le> p + (q - p) * 6 * t2 \<and> p + (q - p) * 6 * t2 \<le> q"
      by (simp only: mult.assoc)
    with 1 show ?thesis by (simp only: eq if_True) blast
  next
    case 2
    then show ?thesis using pq by (simp add: eq)
  next
    case 3
    then have "0 \<le> (2 / 3 - t2) * 6" "(2 / 3 - t2) * 6 \<le> 1" by simp_all
    from scaled_between [OF pq this]
    have "p \<le> p + (q - p) * (2 / 3 - t2) * 6 \<and> p + (q - p) * (2 / 3 - t2) * 6 \<le> q"
      by (simp only: mult.assoc)
    moreover have "calculateComponent (Fin p) (Fin q) (Fin t) = Fin (p + (q - p) * (2 / 3 - t2) * 6)"
      using 3 by (simp only: eq) simp
    ultimately show ?thesis by blast
  next
    case 4
    then show ?thesis using pq by (simp add: eq)
  qed
qed

lemma components_ordered:
  fixes L S :: real
  assumes "0 \<le> L" "L \<le> 1" "0 \<le> S" "S \<le> 1"
  defines "q \<equiv> (if L < 0.5 then L * (1 + S) else L + S - L * S)"
  shows "0 \<le> 2 * L - q \<and> 2 * L - q \<le> q \<and> q \<le> 1"
proof (cases "L < 0.5")
  case True
  define m where "m = L * S"
  have m: "0 \<le> m" "m \<le> L * 1" unfolding m_def using assms(1-4)
    by (simp, intro mult_left_mono, simp_all)
  have "q = L + m" using True by (simp add: q_def m_def algebra_simps)
  then show ?thesis using m True by simp
next
  case False
  define m where "m = (1 - L) * S"
  have m: "0 \<le> m" "m \<le> (1 - L) * 1" unfolding m_def using assms(1-4)
    by (simp, intro mult_left_mono, simp_all)
  have "q = L + m" using False by (simp add: q_def m_def algebra_simps)
  then show ?thesis using m False by simp
qed

lemma hslToHex_channels_range:
  assumes "0 \<le> h" "h \<le> 360" "0 \<le> s" "s \<le> 100" "0 \<le> l" "l \<le> 100"
  shows "\<exists>r g b. hslToHex_channels (Fin h) (Fin s) (Fin l) = (Fin r, Fin g, Fin b) \<and>
                 0 \<le> r \<and> r \<le> 1 \<and> 0 \<le> g \<and> g \<le> 1 \<and> 0 \<le> b \<and> b \<le> 1"
proof (cases "s = 0")
  case True
  then have "hslToHex_channels (Fin h) (Fin s) (Fin l) = (Fin (l / 100), Fin (l / 100), Fin (l / 100))"
    by (simp add: hslToHex_channels_def js_eq_def Let_def)
  moreover have "0 \<le> l / 100" "l / 100 \<le> 1" using assms by simp_all
  ultimately show ?thesis by blast
next
  case False
  define H where "H = h / 360"
  define S where "S = s / 100"
  define L where "L = l / 100"
  define q where "q = (if L < 0.5 then L * (1 + S) else L + S - L * S)"
  define p where "p = 2 * L - q"
  have rng: "0 \<le> H" "H \<le> 1" "0 \<le> S" "S \<le> 1" "0 \<le> L" "L \<le> 1"
    using assms by (simp_all add: H_def S_def L_def)
  from components_ordered [OF rng(5,6,3,4)]
  have ord: "0 \<le> p" "p \<le> q" "q \<le> 1" by (simp_all add: p_def q_def)
  have eq: "hslToHex_channels (Fin h) (Fin s) (Fin l) =
              (calculateComponent (Fin p) (Fin q) (Fin (H + 1 / 3)),
               calculateComponent (Fin p) (Fin q) (Fin H),
               calculateComponent (Fin p) (Fin q) (Fin (H - 1 / 3)))"
    using False
    by (simp add: hslToHex_channels_def js_eq_def js_sub_def Let_def p_def q_def H_def S_def L_def)
  obtain r where r: "calculateComponent (Fin p) (Fin q) (Fin (H + 1 / 3)) = Fin r" "p \<le> r" "r \<le> q"
    using calculateComponent_between [OF ord(2), of "H + 1 / 3"] rng by auto
  obtain g where g: "calculateComponent (Fin p) (Fin q) (Fin H) = Fin g" "p \<le> g" "g \<le> q"
    using calculateComponent_between [OF ord(2), of H] rng by auto
  obtain b where b: "calculateComponent (Fin p) (Fin q) (Fin (H - 1 / 3)) = Fin b" "p \<le> b" "b \<le> q"
    using calculateComponent_between [OF ord(2), of "H - 1 / 3"] rng by auto
  show ?thesis
    using ord r g b by (simp add: eq)
qed


lemma hex_digit_lowercase: "d < 16 \<Longrightarrow> hex_digit d \<in> set ''0123456789abcdef''"
  unfolding hex_digit_def by (rule nth_mem) simp

lemma hex2_lowercase: "n < 256 \<Longrightarrow> set (hex2 n) \<subseteq> set ''0123456789abcdef''"
proof -
  assume "n < 256"
  then have "n div 16 < 16" and "n mod 16 < 16" by simp_all
  then show ?thesis
    using hex_digit_lowercase [of "n div 16"] hex_digit_lowercase [of "n mod 16"]
    by (simp add: hex2_def)
qed

lemma toHex_byte:
  assumes "0 \<le> c" and "c \<le> 1"
  shows "toHex (Fin c) = hex2 (nearest_byte c) \<and> nearest_byte c \<le> 255 \<and>
         \<bar>real (nearest_byte c) - c * 255\<bar> \<le> 1 / 2 \<and>
         set (hex2 (nearest_byte c)) \<subseteq> set ''0123456789abcdef''"
  using toHex_unit [OF assms] nearest_byte_le [OF assms] nearest_byte_nearest [OF assms(1)]
    hex2_lowercase [of "nearest_byte c"]
  by simp

text \<open>
  Claim C8: \<open>hslToHex(0, 100, 50)\<close> is \<open>"#ff0000"\<close>; \<open>hslToHex(h, 0, 50)\<close> is
  \<open>"#808080"\<close> for every hue \<open>h\<close>; and each channel is rounded to the nearest integer
  in \<open>[0, 255]\<close> and rendered as two lowercase, zero-padded hexadecimal digits. The last
  part is stated on the function's domain, hue in \<open>[0, 360]\<close>, saturation and lightness
  in \<open>[0, 100]\<close>, where the three channels lie in \<open>[0, 1]\<close>.
\<close>

theorem hslToHex_encoding:
  "hslToHex (Fin 0) (Fin 100) (Fin 50) = ''#ff0000'' \<and>
   hslToHex h (Fin 0) (Fin 50) = ''#808080'' \<and>
   (0 \<le> hue \<and> hue \<le> 360 \<and> 0 \<le> s \<and> s \<le> 100 \<and> 0 \<le> l \<and> l \<le> 100 \<longrightarrow>
      (\<exists>r g b. hslToHex_channels (Fin hue) (Fin s) (Fin l) = (Fin r, Fin g, Fin b) \<and>
         hslToHex (Fin hue) (Fin s) (Fin l) =
           ''#'' @ hex2 (nearest_byte r) @ hex2 (nearest_byte g) @ hex2 (nearest_byte b) \<and>
         (\<forall>c \<in> {r, g, b}. nearest_byte c \<le> 255 \<and> \<bar>real (nearest_byte c) - c * 255\<bar> \<le> 1 / 2 \<and>
            set (hex2 (nearest_byte c)) \<subseteq> set ''0123456789abcdef'')))"
proof (intro conjI impI)
  show "hslToHex (Fin 0) (Fin 100) (Fin 50) = ''#ff0000''"
    by (simp add: hslToHex_def hslToHex_channels_def calculateComponent_def toHex_def js_eq_def
          js_sub_def js_gt_def hex_digits.simps hex_digit_def Let_def)
next
  show "hslToHex h (Fin 0) (Fin 50) = ''#808080''"
    by (simp add: hslToHex_def hslToHex_channels_def toHex_def js_eq_def
          hex_digits.simps hex_digit_def Let_def)
next
  assume "0 \<le> hue \<and> hue \<le> 360 \<and> 0 \<le> s \<and> s \<le> 100 \<and> 0 \<le> l \<and> l \<le> 100"
  then obtain r g b where
    ch: "hslToHex_channels (Fin hue) (Fin s) (Fin l) = (Fin r, Fin g, Fin b)"
    and r: "0 \<le> r" "r \<le> 1" and g: "0 \<le> g" "g \<le> 1" and b: "0 \<le> b" "b \<le> 1"
    using hslToHex_channels_range [of hue s l] by auto
  show "\<exists>r g b. hslToHex_channels (Fin hue) (Fin s) (Fin l) = (Fin r, Fin g, Fin b) \<and>
         hslToHex (Fin hue) (Fin s) (Fin l) =
           ''#'' @ hex2 (nearest_byte r) @ hex2 (nearest_byte g) @ hex2 (nearest_byte b) \<and>
         (\<forall>c \<in> {r, g, b}. nearest_byte c \<le> 255 \<and> \<bar>real (nearest_byte c) - c * 255\<bar> \<le> 1 / 2 \<and>
            set (hex2 (nearest_byte c)) \<subseteq> set ''0123456789abcdef'')"
    using toHex_byte [OF r] toHex_byte [OF g] toHex_byte [OF b]
    by (intro exI [of _ r] exI [of _ g] exI [of _ b]) (simp add: ch hslToHex_def)
qed

theorem hslToHex_encoding_witness:
  "(0::real) \<le> 120 \<and> (120::real) \<le> 360 \<and> (0::real) \<le> 100 \<and> (100::real) \<le> 100 \<and>
   (0::real) \<le> 50 \<and> (50::real) \<le> 100 \<and>
   hslToHex (Fin 120) (Fin 100) (Fin 50) = ''#00ff00'' \<and>
   (\<exists>r g b. hslToHex_channels (Fin 120) (Fin 100) (Fin 50) = (Fin r, Fin g, Fin b) \<and>
      hslToHex (Fin 120) (Fin 100) (Fin 50) =
        ''#'' @ hex2 (nearest_byte r) @ hex2 (nearest_byte g) @ hex2 (nearest_byte b) \<and>
      nearest_byte r \<le> 255 \<and> nearest_byte g \<le> 255 \<and> nearest_byte b \<le> 255)"
proof -
  have "hslToHex (Fin 120) (Fin 100) (Fin 50) = ''#00ff00''"
    by (simp add: hslToHex_def hslToHex_channels_def calculateComponent_def toHex_def js_eq_def
          js_sub_def js_gt_def hex_digits.simps hex_digit_def Let_def)
  with hslToHex_encoding [of "Fin 0" 120 100 50] show ?thesis
    by auto
qed

section \<open>The curve sampler's range\<close>


lemma Math_pow_nonneg_base: "0 \<le> b \<Longrightarrow> Math_pow (Fin b) (Fin e) \<noteq> NaN"
  by simp








lemma in_interval_Fin [simp]: "in_interval (Fin lo) (Fin hi) (Fin x) = (lo \<le> x \<and> x \<le> hi)"
  by (auto simp: in_interval_def js_le_def js_eq_def)




end
